theory Spec2Isabelle
  imports Main "HOL-Library.AList"
begin

section \<open>Meeting rooms and their participants (backend/app/signaling.py)\<close>

text \<open>
  Conventions of the embedding.
  \<^item> A Python \<open>dict\<close> is an association list in insertion order with distinct keys:
    \<open>d[k] = v\<close> is \<open>AList.update k v\<close> (an existing key keeps its position, a new key
    goes to the end), \<open>del d[k]\<close> is \<open>AList.delete k\<close>, \<open>k in d\<close> and \<open>d.get(k)\<close> are
    \<open>map_of\<close>, \<open>len(d)\<close> is \<open>length\<close>.
  \<^item> \<open>datetime.now()\<close> is an argument \<open>now\<close> of every operation that reads the clock;
    a \<open>datetime\<close> is an integer number of microseconds, the resolution of the Python type,
    so that a \<open>timedelta\<close> comparison is an integer comparison.
  \<^item> A \<open>WebSocket\<close> is the identity of a transport handle. Whether \<open>send_text\<close> on it
    raises is given by a predicate \<open>dead\<close> supplied by the environment.
\<close>

type_synonym datetime = int
type_synonym websocket = nat

definition seconds :: "int \<Rightarrow> int" where
  "seconds n = n * 1000000"

definition minutes :: "int \<Rightarrow> int" where
  "minutes n = seconds (60 * n)"

datatype ParticipantType = HUMAN | AI

record Participant =
  user_id :: string
  websocket :: websocket
  participant_type :: ParticipantType
  is_organizer :: bool
  joined_at :: datetime
  audio_enabled :: bool
  voice_activity :: bool
  last_activity :: datetime

text \<open>\<open>Participant.__init__\<close>\<close>

definition new_Participant ::
  "datetime \<Rightarrow> string \<Rightarrow> websocket \<Rightarrow> ParticipantType \<Rightarrow> bool \<Rightarrow> Participant" where
  "new_Participant now uid ws ptype organizer =
     \<lparr> user_id = uid, websocket = ws, participant_type = ptype, is_organizer = organizer,
       joined_at = now, audio_enabled = True, voice_activity = False, last_activity = now \<rparr>"

text \<open>
  \<open>MeetingRoom\<close>. The field \<open>ai_participant\<close> of the source is a reference to the
  \<open>Participant\<close> object that is also stored in \<open>participants\<close>; the code only ever tests
  whether it is set, so the model keeps the \<open>user_id\<close> of the referenced object.
  The two timeouts are whole numbers of seconds in the source (\<open>3.0\<close> and \<open>30.0\<close>).
\<close>

record MeetingRoom =
  room_id :: string
  max_participants :: int
  participants :: "(string \<times> Participant) list"
  created_at :: datetime
  ai_participant :: "string option"
  conversation_state :: string
  current_speaker :: "string option"
  voice_activity_timeout :: int
  ai_speaking_timeout :: int

definition new_MeetingRoom :: "datetime \<Rightarrow> string \<Rightarrow> int \<Rightarrow> MeetingRoom" where
  "new_MeetingRoom now rid maxp =
     \<lparr> room_id = rid, max_participants = maxp, participants = [], created_at = now,
       ai_participant = None, conversation_state = ''waiting'', current_speaker = None,
       voice_activity_timeout = seconds 3, ai_speaking_timeout = seconds 30 \<rparr>"

definition add_participant :: "MeetingRoom \<Rightarrow> Participant \<Rightarrow> bool \<times> MeetingRoom" where
  "add_participant room participant =
     (if int (length (participants room)) \<ge> max_participants room then (False, room)
      else (True, room\<lparr>participants :=
                        AList.update (user_id participant) participant (participants room)\<rparr>))"

definition remove_participant :: "MeetingRoom \<Rightarrow> string \<Rightarrow> bool \<times> MeetingRoom" where
  "remove_participant room uid =
     (if map_of (participants room) uid \<noteq> None
      then (True, room\<lparr>participants := AList.delete uid (participants room)\<rparr>)
      else (False, room))"

definition get_human_participants :: "MeetingRoom \<Rightarrow> Participant list" where
  "get_human_participants room =
     filter (\<lambda>p. participant_type p = HUMAN) (map snd (participants room))"

definition has_human_participants :: "MeetingRoom \<Rightarrow> bool" where
  "has_human_participants room =
     list_ex (\<lambda>p. participant_type p = HUMAN) (map snd (participants room))"

definition set_voice_activity :: "datetime \<Rightarrow> MeetingRoom \<Rightarrow> string \<Rightarrow> bool \<Rightarrow> MeetingRoom" where
  "set_voice_activity now room uid is_active =
     (case map_of (participants room) uid of
        None \<Rightarrow> room
      | Some p \<Rightarrow>
          let room1 = room\<lparr>participants :=
                AList.update uid (p\<lparr>voice_activity := is_active, last_activity := now\<rparr>)
                  (participants room)\<rparr>
          in if is_active
             then room1\<lparr>current_speaker := Some uid,
                        conversation_state :=
                          (if participant_type p = HUMAN then ''user_speaking''
                           else ''ai_speaking'')\<rparr>
             else let active_speakers =
                        map user_id (filter voice_activity (map snd (participants room1)))
                  in if active_speakers = []
                     then room1\<lparr>current_speaker := None, conversation_state := ''active''\<rparr>
                     else room1)"

definition is_empty :: "MeetingRoom \<Rightarrow> bool" where
  "is_empty room = (length (participants room) = 0)"

definition should_cleanup :: "datetime \<Rightarrow> MeetingRoom \<Rightarrow> bool" where
  "should_cleanup now room =
     (if is_empty room then now - created_at room > minutes 5 else False)"

section \<open>The session manager (EnhancedSessionManager)\<close>

text \<open>
  A frame handed to a transport: the receiving transport, the \<open>type\<close> of the message and
  its \<open>from_user\<close>, when it has one. \<open>sent\<close> is the log of the frames that transports
  accepted; it is not a field of the source class, it records the calls to \<open>send_text\<close>
  that returned. \<open>closed\<close> records in the same way the transports on which \<open>close\<close> has
  been called; the only such call in the source is the one \<open>websocket_endpoint\<close> makes after
  a rejected join.
  \<open>ai_auto_join_tasks\<close> holds the room ids that have a task stored (the tasks themselves run
  concurrently and are not part of this model).
\<close>

type_synonym frame = "websocket \<times> string \<times> string option"

record EnhancedSessionManager =
  meeting_rooms :: "(string \<times> MeetingRoom) list"
  participant_to_room :: "(string \<times> string) list"
  ai_auto_join_tasks :: "string list"
  sent :: "frame list"
  closed :: "websocket list"

definition new_EnhancedSessionManager :: EnhancedSessionManager where
  "new_EnhancedSessionManager =
     \<lparr> meeting_rooms = [], participant_to_room = [], ai_auto_join_tasks = [], sent = [],
       closed = [] \<rparr>"

definition create_meeting_room ::
  "datetime \<Rightarrow> string \<Rightarrow> int \<Rightarrow> EnhancedSessionManager \<Rightarrow> EnhancedSessionManager" where
  "create_meeting_room now rid maxp s =
     (if map_of (meeting_rooms s) rid = None
      then s\<lparr>meeting_rooms := AList.update rid (new_MeetingRoom now rid maxp) (meeting_rooms s)\<rparr>
      else s)"

definition cleanup_room :: "string \<Rightarrow> EnhancedSessionManager \<Rightarrow> EnhancedSessionManager" where
  "cleanup_room rid s =
     s\<lparr>meeting_rooms := AList.delete rid (meeting_rooms s),
       ai_auto_join_tasks := removeAll rid (ai_auto_join_tasks s)\<rparr>"

text \<open>
  The recipients of \<open>_broadcast_to_room\<close>: every participant of the room in dictionary order,
  except \<open>exclude_user\<close> when that is a non-empty string.
\<close>

definition recipients :: "MeetingRoom \<Rightarrow> string option \<Rightarrow> Participant list" where
  "recipients room exclude_user =
     filter (\<lambda>p. \<not> (case exclude_user of None \<Rightarrow> False
                                          | Some e \<Rightarrow> e \<noteq> [] \<and> user_id p = e))
       (map snd (participants room))"

text \<open>
  \<open>leave_meeting_room\<close> and \<open>_broadcast_to_room\<close> call each other: a broadcast collects the
  participants whose transport raised and then leaves the room on behalf of each of them,
  and a leave broadcasts \<open>participant_left\<close>. \<open>leave_disconnected\<close> is the loop
  \<open>for user_id in disconnected_participants\<close>.

  After the broadcast inside \<open>leave_meeting_room\<close> the source evaluates
  \<open>room.should_cleanup()\<close> on the room object it looked up before. Nothing in these three
  functions creates a room, so if the registry still has an entry for the room id it is that
  object, in its current state; if the entry is gone (a nested leave has cleaned the room up)
  \<open>_cleanup_room\<close> finds nothing to delete.
\<close>

function leave_meeting_room ::
    "(websocket \<Rightarrow> bool) \<Rightarrow> datetime \<Rightarrow> string \<Rightarrow> EnhancedSessionManager
       \<Rightarrow> bool \<times> EnhancedSessionManager"
  and broadcast_to_room ::
    "(websocket \<Rightarrow> bool) \<Rightarrow> datetime \<Rightarrow> string \<Rightarrow> string \<times> string option \<Rightarrow> string option
       \<Rightarrow> EnhancedSessionManager \<Rightarrow> EnhancedSessionManager"
  and leave_disconnected ::
    "(websocket \<Rightarrow> bool) \<Rightarrow> datetime \<Rightarrow> string list \<Rightarrow> EnhancedSessionManager
       \<Rightarrow> EnhancedSessionManager"
where
  "leave_meeting_room dead now uid s =
     (case map_of (participant_to_room s) uid of
        None \<Rightarrow> (False, s)
      | Some rid \<Rightarrow>
          (case map_of (meeting_rooms s) rid of
             None \<Rightarrow> (False, s)
           | Some room \<Rightarrow>
               (case remove_participant room uid of
                  (False, _) \<Rightarrow> (False, s)
                | (True, room1) \<Rightarrow>
                    let s1 = s\<lparr>meeting_rooms := AList.update rid room1 (meeting_rooms s),
                               participant_to_room := AList.delete uid (participant_to_room s)\<rparr>;
                        s2 = broadcast_to_room dead now rid (''participant_left'', Some uid) None s1
                    in (True,
                        (case map_of (meeting_rooms s2) rid of
                           None \<Rightarrow> s2
                         | Some room2 \<Rightarrow>
                             if should_cleanup now room2 then cleanup_room rid s2 else s2)))))"
| "broadcast_to_room dead now rid message exclude_user s =
     (case map_of (meeting_rooms s) rid of
        None \<Rightarrow> s
      | Some room \<Rightarrow>
          let targets = recipients room exclude_user;
              delivered = map (\<lambda>p. (websocket p, message))
                            (filter (\<lambda>p. \<not> dead (websocket p)) targets);
              disconnected_participants =
                map user_id (filter (\<lambda>p. dead (websocket p)) targets)
          in leave_disconnected dead now disconnected_participants
               (s\<lparr>sent := sent s @ delivered\<rparr>))"
| "leave_disconnected dead now [] s = s"
| "leave_disconnected dead now (uid # uids) s =
     leave_disconnected dead now uids (snd (leave_meeting_room dead now uid s))"
  by pat_completeness auto


text \<open>
  \<open>_broadcast_participant_update\<close>: the frame carries the event type and, as \<open>from_user\<close>,
  the \<open>user_id\<close> of the participant it is about.
\<close>

definition broadcast_participant_update ::
  "(websocket \<Rightarrow> bool) \<Rightarrow> datetime \<Rightarrow> string \<Rightarrow> string \<Rightarrow> string
     \<Rightarrow> EnhancedSessionManager \<Rightarrow> EnhancedSessionManager" where
  "broadcast_participant_update dead now rid event_type uid s =
     broadcast_to_room dead now rid (event_type, Some uid) None s"

text \<open>\<open>_schedule_ai_auto_join\<close> stores a task under the room id, replacing any earlier one.\<close>

definition schedule_ai_auto_join :: "string \<Rightarrow> EnhancedSessionManager \<Rightarrow> EnhancedSessionManager" where
  "schedule_ai_auto_join rid s =
     s\<lparr>ai_auto_join_tasks :=
         (if rid \<in> set (ai_auto_join_tasks s) then ai_auto_join_tasks s
          else ai_auto_join_tasks s @ [rid])\<rparr>"

text \<open>
  \<open>join_meeting_room\<close>. The room is the registered one, or the one just created with the
  default capacity 10. The writes to the database are calls to an external service inside
  \<open>try ... except Exception\<close> and leave the manager as it is. The last test reads the room
  object after the broadcast: if the cascade has cleaned the room up, that object has no
  participant and the test fails.
\<close>

definition join_meeting_room ::
  "(websocket \<Rightarrow> bool) \<Rightarrow> datetime \<Rightarrow> string \<Rightarrow> string \<Rightarrow> websocket \<Rightarrow> ParticipantType \<Rightarrow> bool
     \<Rightarrow> EnhancedSessionManager \<Rightarrow> bool \<times> EnhancedSessionManager" where
  "join_meeting_room dead now rid uid ws ptype organizer s =
     (let s0 = (if map_of (meeting_rooms s) rid = None
                then create_meeting_room now rid 10 s else s);
          room = (case map_of (meeting_rooms s0) rid of
                    None \<Rightarrow> new_MeetingRoom now rid 10 | Some r \<Rightarrow> r);
          participant = new_Participant now uid ws ptype organizer
      in case add_participant room participant of
           (False, _) \<Rightarrow> (False, s0)
         | (True, room1) \<Rightarrow>
             let room2 = (if ptype = AI then room1\<lparr>ai_participant := Some uid\<rparr> else room1);
                 s1 = s0\<lparr>meeting_rooms := AList.update rid room2 (meeting_rooms s0),
                         participant_to_room := AList.update uid rid (participant_to_room s0)\<rparr>;
                 s2 = broadcast_participant_update dead now rid ''participant_joined'' uid s1
             in (True,
                 (case map_of (meeting_rooms s2) rid of
                    None \<Rightarrow> s2
                  | Some room3 \<Rightarrow>
                      if ptype = HUMAN \<and> length (get_human_participants room3) = 1
                         \<and> ai_participant room3 = None
                      then schedule_ai_auto_join rid s2 else s2)))"

definition handle_voice_activity ::
  "(websocket \<Rightarrow> bool) \<Rightarrow> datetime \<Rightarrow> string \<Rightarrow> bool
     \<Rightarrow> EnhancedSessionManager \<Rightarrow> EnhancedSessionManager" where
  "handle_voice_activity dead now uid is_active s =
     (case map_of (participant_to_room s) uid of
        None \<Rightarrow> s
      | Some rid \<Rightarrow>
          (case map_of (meeting_rooms s) rid of
             None \<Rightarrow> s
           | Some room \<Rightarrow>
               broadcast_to_room dead now rid (''voice_activity'', Some uid) (Some uid)
                 (s\<lparr>meeting_rooms :=
                      AList.update rid (set_voice_activity now room uid is_active)
                        (meeting_rooms s)\<rparr>)))"

text \<open>\<open>get_room_participants\<close>: the snapshot handed to other components.\<close>

definition get_room_participants :: "EnhancedSessionManager \<Rightarrow> string \<Rightarrow> Participant list" where
  "get_room_participants s rid =
     (case map_of (meeting_rooms s) rid of None \<Rightarrow> [] | Some room \<Rightarrow> map snd (participants room))"


section \<open>The conversation flow (backend/app/services/ai_meeting_orchestrator.py)\<close>

datatype ConversationState =
  WAITING | ACTIVE | AI_SPEAKING | USER_SPEAKING | WAITING_FOR_RESPONSE
  | LISTENING | PROCESSING | RESPONDING | COMPLETED

text \<open>An entry of \<open>conversation_history\<close> (the dictionary \<open>message_data\<close>).\<close>

record history_entry =
  speaker :: string
  message :: string
  timestamp :: datetime
  speaker_id :: "string option"

type_synonym lead = "(string \<times> string) list"

text \<open>
  \<open>ConversationFlow\<close>. The fields \<open>room_id\<close> and \<open>last_activity\<close> of the source carry the
  prefix \<open>flow_\<close> here, the plain names being fields of the room and the participant.
  \<open>silence_timeout\<close> (5.0 s) and \<open>ai_response_delay\<close> (2.0 s) are in microseconds.
\<close>

record ConversationFlow =
  meeting_id :: string
  flow_room_id :: string
  state :: ConversationState
  current_question_index :: nat
  questions :: "string list"
  conversation_history :: "history_entry list"
  lead_data :: "lead option"
  silence_timeout :: int
  ai_response_delay :: int
  max_questions :: int
  flow_last_activity :: datetime

definition new_ConversationFlow :: "datetime \<Rightarrow> string \<Rightarrow> string \<Rightarrow> ConversationFlow" where
  "new_ConversationFlow now mid rid =
     \<lparr> meeting_id = mid, flow_room_id = rid, state = WAITING, current_question_index = 0,
       questions = [], conversation_history = [], lead_data = None,
       silence_timeout = seconds 5, ai_response_delay = seconds 2, max_questions = 7,
       flow_last_activity = now \<rparr>"

text \<open>
  \<open>initialize\<close>: \<open>qs\<close> is what \<open>question_service.generate_questions_for_lead\<close> returned.
\<close>

definition initialize :: "ConversationFlow \<Rightarrow> lead \<Rightarrow> string list \<Rightarrow> ConversationFlow" where
  "initialize c ld qs = c\<lparr>lead_data := Some ld, questions := qs\<rparr>"

text \<open>
  \<open>_save_conversation_message\<close>: the entry is appended to the history; the insert into the
  database is an external call whose failure is caught and logged.
\<close>

definition save_conversation_message ::
  "datetime \<Rightarrow> ConversationFlow \<Rightarrow> string \<Rightarrow> string \<Rightarrow> string option \<Rightarrow> ConversationFlow" where
  "save_conversation_message now c speaker_type text sid =
     c\<lparr>conversation_history := conversation_history c @
          [\<lparr> speaker = speaker_type, message = text, timestamp = now, speaker_id = sid \<rparr>]\<rparr>"

datatype error = AttributeError

definition default_opening :: string where
  "default_opening =
     ''Hello! I'd like to learn more about your business needs. Can you tell me about your company?''"

definition completion_message :: string where
  "completion_message =
     ''Thank you for sharing all that information with me. Let me analyze what we've discussed and provide you with a summary.''"

definition prompt_message :: string where
  "prompt_message =
     ''I'm here when you're ready to continue. Would you like me to repeat the question?''"

text \<open>\<open>d.get(key, default)\<close> on a dictionary of strings.\<close>

definition dict_get :: "lead \<Rightarrow> string \<Rightarrow> string \<Rightarrow> string" where
  "dict_get d k dflt = (case map_of d k of None \<Rightarrow> dflt | Some v \<Rightarrow> v)"

text \<open>
  \<open>start_conversation\<close>. With no question the default greeting is returned and nothing else
  happens. Otherwise the state is set first; \<open>self.lead_data.get\<close> raises when the lead
  data is still \<open>None\<close>.
\<close>

definition start_conversation ::
  "datetime \<Rightarrow> ConversationFlow \<Rightarrow> (error + string) \<times> ConversationFlow" where
  "start_conversation now c =
     (if questions c = [] then (Inr default_opening, c)
      else let c1 = c\<lparr>state := AI_SPEAKING\<rparr>
           in case lead_data c1 of
                None \<Rightarrow> (Inl AttributeError, c1)
              | Some ld \<Rightarrow>
                  let opening_message =
                        ''Hello! I'm an AI assistant here to learn more about ''
                        @ dict_get ld ''company'' ''your business'' @ ''. '' @ questions c1 ! 0
                  in (Inr opening_message,
                      save_conversation_message now c1 ''ai'' opening_message None))"

text \<open>
  \<open>gemini_service.generate_next_question\<close> is an external collaborator that returns a string
  on every path; it is the argument \<open>gen\<close>.
\<close>

type_synonym question_generator = "history_entry list \<Rightarrow> string list \<Rightarrow> lead option \<Rightarrow> string"

definition generate_next_question ::
  "question_generator \<Rightarrow> datetime \<Rightarrow> ConversationFlow \<Rightarrow> string \<times> ConversationFlow" where
  "generate_next_question gen now c =
     (let c1 = c\<lparr>current_question_index := current_question_index c + 1\<rparr>;
          next_question =
            (if current_question_index c1 < length (questions c1)
             then questions c1 ! current_question_index c1
             else gen (conversation_history c1)
                      (drop (current_question_index c1) (questions c1)) (lead_data c1));
          c2 = c1\<lparr>state := AI_SPEAKING\<rparr>
      in (next_question, save_conversation_message now c2 ''ai'' next_question None))"

text \<open>
  \<open>_complete_conversation\<close>. The analysis it starts with \<open>asyncio.create_task\<close> runs beside
  the flow and does not write to it.
\<close>

definition complete_conversation :: "datetime \<Rightarrow> ConversationFlow \<Rightarrow> string \<times> ConversationFlow" where
  "complete_conversation now c =
     (let c1 = c\<lparr>state := COMPLETED\<rparr>
      in (completion_message, save_conversation_message now c1 ''ai'' completion_message None))"

text \<open>
  \<open>process_user_response\<close>, called at time \<open>now\<close>; the reply is produced after the sleep of
  \<open>ai_response_delay\<close>.
\<close>

definition process_user_response ::
  "question_generator \<Rightarrow> datetime \<Rightarrow> ConversationFlow \<Rightarrow> string \<Rightarrow> string
     \<Rightarrow> string \<times> ConversationFlow" where
  "process_user_response gen now c user_message uid =
     (let c1 = save_conversation_message now c ''human'' user_message (Some uid);
          c2 = c1\<lparr>flow_last_activity := now\<rparr>;
          later = now + ai_response_delay c2
      in if int (length (conversation_history c2)) \<ge> max_questions c2 * 2
         then complete_conversation later c2
         else generate_next_question gen later c2)"

definition should_prompt_user :: "datetime \<Rightarrow> ConversationFlow \<Rightarrow> bool" where
  "should_prompt_user now c =
     (if state c = WAITING_FOR_RESPONSE
      then now - flow_last_activity c > silence_timeout c
      else False)"

definition handle_silence_timeout ::
  "datetime \<Rightarrow> ConversationFlow \<Rightarrow> string option \<times> ConversationFlow" where
  "handle_silence_timeout now c =
     (if should_prompt_user now c
      then (Some prompt_message, save_conversation_message now c ''ai'' prompt_message None)
      else (None, c))"

text \<open>
  A conversation in which the user answers several times in a row and nothing else touches
  the flow: each answer is a clock reading, a text and a user id.
\<close>

fun process_user_responses ::
  "question_generator \<Rightarrow> ConversationFlow \<Rightarrow> (datetime \<times> string \<times> string) list
     \<Rightarrow> string list \<times> ConversationFlow" where
  "process_user_responses gen c [] = ([], c)"
| "process_user_responses gen c ((now, text, uid) # rs) =
     (let (reply, c1) = process_user_response gen now c text uid;
          (replies, c2) = process_user_responses gen c1 rs
      in (reply # replies, c2))"

text \<open>
  Everything the program does to a flow after it has constructed it: \<open>initialize\<close>,
  \<open>start_conversation\<close>, \<open>process_user_response\<close>, the tick of the silence monitor
  (\<open>handle_silence_timeout\<close>, called by \<open>_monitor_conversation_flow\<close>) and the forced
  completion of \<open>end_meeting_gracefully\<close> (\<open>_complete_conversation\<close>). Each event carries the
  clock reading of its call.
\<close>

datatype flow_event =
  Initialize lead "string list"
  | Start datetime
  | Respond datetime string string
  | Tick datetime
  | Complete datetime

fun flow_step :: "question_generator \<Rightarrow> ConversationFlow \<Rightarrow> flow_event \<Rightarrow> ConversationFlow" where
  "flow_step gen c (Initialize ld qs) = initialize c ld qs"
| "flow_step gen c (Start now) = snd (start_conversation now c)"
| "flow_step gen c (Respond now text uid) = snd (process_user_response gen now c text uid)"
| "flow_step gen c (Tick now) = snd (handle_silence_timeout now c)"
| "flow_step gen c (Complete now) = snd (complete_conversation now c)"

definition flow_run ::
  "question_generator \<Rightarrow> ConversationFlow \<Rightarrow> flow_event list \<Rightarrow> ConversationFlow" where
  "flow_run gen c events = foldl (flow_step gen) c events"

section \<open>The scheduled join of the agent (AIMeetingOrchestrator)\<close>

text \<open>
  What the orchestrator gets from outside. A call to the database either raises or returns
  rows. The registry is shared with the connection tasks: \<open>registry_at t\<close> is the state
  in which they have left the session manager at time \<open>t\<close>. \<open>send_raises\<close> tells which
  transports raise on \<open>send_text\<close>; the transport of the agent (\<open>AIWebSocketMock\<close>,
  \<open>ai_websocket\<close>) never does.
\<close>

datatype 'a outcome = Raises | Returns 'a

record meeting_row =
  lead_id :: string
  question_set_id :: "string option"

record Collaborators =
  select_scheduled_meeting :: "string \<Rightarrow> meeting_row list outcome"
  select_lead :: "string \<Rightarrow> lead list outcome"
  update_scheduled_meeting_raises :: "string \<Rightarrow> bool"
  generate_questions_for_lead :: "lead \<Rightarrow> string option \<Rightarrow> string list"
  text_to_speech :: "string \<Rightarrow> bool outcome"
  registry_at :: "datetime \<Rightarrow> EnhancedSessionManager"
  send_raises :: "websocket \<Rightarrow> bool"
  ai_websocket :: websocket

definition transport_raises :: "Collaborators \<Rightarrow> websocket \<Rightarrow> bool" where
  "transport_raises env ws = (ws \<noteq> ai_websocket env \<and> send_raises env ws)"

record AIMeetingOrchestrator =
  active_conversations :: "(string \<times> ConversationFlow) list"
  scheduled_joins :: "string list"
  ai_voice_participants :: "string list"

definition new_AIMeetingOrchestrator :: AIMeetingOrchestrator where
  "new_AIMeetingOrchestrator =
     \<lparr> active_conversations = [], scheduled_joins = [], ai_voice_participants = [] \<rparr>"

text \<open>
  \<open>_wait_for_participants\<close>: the loop polls the registry, then sleeps five seconds.
  A sleep is taken to last exactly its argument and the code between two sleeps to take no
  time. The result is the returned flag and the time at which the function returns.
\<close>

function wait_loop ::
  "(datetime \<Rightarrow> EnhancedSessionManager) \<Rightarrow> string \<Rightarrow> datetime \<Rightarrow> datetime \<Rightarrow> bool \<times> datetime" where
  "wait_loop registry rid timeout_time now =
     (if now < timeout_time
      then (let human_participants =
                  filter (\<lambda>p. participant_type p = HUMAN)
                    (get_room_participants (registry now) rid)
            in if human_participants \<noteq> [] then (True, now)
               else wait_loop registry rid timeout_time (now + seconds 5))
      else (False, now))"
  by pat_completeness auto
termination
  by (relation "measure (\<lambda>(registry, rid, timeout_time, now). nat (timeout_time - now))")
     (auto simp: seconds_def)

declare wait_loop.simps [simp del]

definition wait_for_participants ::
  "(datetime \<Rightarrow> EnhancedSessionManager) \<Rightarrow> string \<Rightarrow> datetime \<Rightarrow> int \<Rightarrow> bool \<times> datetime" where
  "wait_for_participants registry rid now timeout_minutes =
     wait_loop registry rid (now + minutes timeout_minutes) now"

text \<open>
  \<open>AIVoiceParticipant._speak_message\<close>: with audio the text goes out as
  \<open>ai_voice_message\<close>, followed after the speaking time (one second per 150 characters, at
  least two seconds) by \<open>ai_speaking_finished\<close>; without audio it goes out as \<open>ai_message\<close>;
  an exception of the speech service is caught. The result is the registry and the time
  afterwards.
\<close>

definition speaking_duration :: "string \<Rightarrow> int" where
  "speaking_duration text = max (int (length text) * 1000000 div 150) (seconds 2)"

definition speak_message ::
  "Collaborators \<Rightarrow> datetime \<Rightarrow> string \<Rightarrow> string \<Rightarrow> EnhancedSessionManager
     \<Rightarrow> EnhancedSessionManager \<times> datetime" where
  "speak_message env now rid text s =
     (case text_to_speech env text of
        Raises \<Rightarrow> (s, now)
      | Returns True \<Rightarrow>
          let s1 = broadcast_to_room (transport_raises env) now rid
                     (''ai_voice_message'', Some ''ai-assistant'') None s;
              later = now + speaking_duration text
          in (broadcast_to_room (transport_raises env) later rid
                (''ai_speaking_finished'', Some ''ai-assistant'') None s1, later)
      | Returns False \<Rightarrow>
          (broadcast_to_room (transport_raises env) now rid
             (''ai_message'', Some ''ai-assistant'') None s, now))"

definition ai_greeting :: string where
  "ai_greeting =
     ''Hello! I'm your AI meeting assistant. I'm here to learn about your business and help qualify this opportunity. Let's get started!''"

text \<open>\<open>AIVoiceParticipant.join_meeting\<close>\<close>

definition join_meeting ::
  "Collaborators \<Rightarrow> datetime \<Rightarrow> string \<Rightarrow> EnhancedSessionManager
     \<Rightarrow> bool \<times> EnhancedSessionManager \<times> datetime" where
  "join_meeting env now rid s =
     (case join_meeting_room (transport_raises env) now rid ''ai-assistant''
             (ai_websocket env) AI False s of
        (False, s1) \<Rightarrow> (False, s1, now)
      | (True, s1) \<Rightarrow>
          (case speak_message env now rid ai_greeting s1 of (s2, later) \<Rightarrow> (True, s2, later)))"

text \<open>
  \<open>join_scheduled_meeting\<close>, called at time \<open>now\<close>. Every exception ends the function with
  \<open>False\<close>, whatever has been done before it stays done. \<open>lead_data\<close> is looked up when
  the argument is \<open>None\<close> or empty. The flag that \<open>_wait_for_participants\<close> returns is not
  bound to anything in the source; only the time at which it returns is used below. The
  monitoring task started at the end runs beside the function.
\<close>

definition join_scheduled_meeting ::
  "Collaborators \<Rightarrow> datetime \<Rightarrow> string \<Rightarrow> string \<Rightarrow> lead option \<Rightarrow> AIMeetingOrchestrator
     \<Rightarrow> bool \<times> AIMeetingOrchestrator \<times> EnhancedSessionManager" where
  "join_scheduled_meeting env now mid rid lead_arg orch =
     (case select_scheduled_meeting env mid of
        Raises \<Rightarrow> (False, orch, registry_at env now)
      | Returns [] \<Rightarrow> (False, orch, registry_at env now)
      | Returns (meeting_data # _) \<Rightarrow>
          (case (if lead_arg = None \<or> lead_arg = Some []
                 then select_lead env (lead_id meeting_data)
                 else Returns [the lead_arg]) of
             Raises \<Rightarrow> (False, orch, registry_at env now)
           | Returns [] \<Rightarrow> (False, orch, registry_at env now)
           | Returns (ld # _) \<Rightarrow>
               let (found, t1) = wait_for_participants (registry_at env) rid now 10;
                   conversation =
                     initialize (new_ConversationFlow t1 mid rid) ld
                       (generate_questions_for_lead env ld (question_set_id meeting_data));
                   orch1 = orch\<lparr>active_conversations :=
                                   AList.update mid conversation (active_conversations orch)\<rparr>
               in if update_scheduled_meeting_raises env mid
                  then (False, orch1, registry_at env t1)
                  else
                    let s1 = broadcast_to_room (transport_raises env) t1 rid
                               (''ai_joined'', None) None (registry_at env t1);
                        orch2 = orch1\<lparr>ai_voice_participants :=
                                  (if mid \<in> set (ai_voice_participants orch1)
                                   then ai_voice_participants orch1
                                   else ai_voice_participants orch1 @ [mid])\<rparr>;
                        (joined, s2, t2) = join_meeting env t1 rid s1;
                        (opening, conversation1) = start_conversation t2 conversation;
                        orch3 = orch2\<lparr>active_conversations :=
                                  AList.update mid conversation1 (active_conversations orch2)\<rparr>
                    in case opening of
                         Inl _ \<Rightarrow> (False, orch3, s2)
                       | Inr opening_message \<Rightarrow>
                           (True, orch3, fst (speak_message env t2 rid opening_message s2))))"

section \<open>Concrete situations\<close>

text \<open>No transport raises.\<close>

definition no_failure :: "websocket \<Rightarrow> bool" where
  "no_failure ws = False"

text \<open>
  The scenario of the specification: room \<open>R1\<close> for two participants, joined by \<open>U1\<close>
  and then by \<open>U2\<close>.
\<close>

definition scenario_one :: EnhancedSessionManager where
  "scenario_one =
     snd (join_meeting_room no_failure (seconds 1) ''R1'' ''U1'' 1 HUMAN False
            (create_meeting_room 0 ''R1'' 2 new_EnhancedSessionManager))"

definition scenario_full :: EnhancedSessionManager where
  "scenario_full =
     snd (join_meeting_room no_failure (seconds 2) ''R1'' ''U2'' 2 HUMAN False scenario_one)"

text \<open>A manager whose mapping still names a room that the registry no longer has.\<close>

definition stale_manager :: EnhancedSessionManager where
  "stale_manager =
     \<lparr> meeting_rooms = [], participant_to_room = [(''U1'', ''R1'')],
       ai_auto_join_tasks = [], sent = [], closed = [] \<rparr>"

text \<open>
  A room with the two participants of the scenario, and the same room after \<open>U1\<close> has
  started to speak, then \<open>U2\<close> has started to speak, then \<open>U2\<close> has stopped.
\<close>

definition scenario_room :: MeetingRoom where
  "scenario_room =
     snd (add_participant
            (snd (add_participant (new_MeetingRoom 0 ''R1'' 2)
                    (new_Participant (seconds 1) ''U1'' 1 HUMAN False)))
            (new_Participant (seconds 2) ''U2'' 2 HUMAN False))"

definition scenario_flips :: MeetingRoom where
  "scenario_flips =
     set_voice_activity (seconds 5)
       (set_voice_activity (seconds 4)
          (set_voice_activity (seconds 3) scenario_room ''U1'' True) ''U2'' True)
       ''U2'' False"


text \<open>
  The conversation of the specification's scenario: seven planned questions, a generator of
  follow-up questions, the flow after \<open>start_conversation\<close>, and six answers of \<open>U1\<close>.
\<close>

definition scenario_questions :: "string list" where
  "scenario_questions = [''Q1'', ''Q2'', ''Q3'', ''Q4'', ''Q5'', ''Q6'', ''Q7'']"

definition scenario_generator :: question_generator where
  "scenario_generator history remaining ld = ''Can you tell me more about that?''"

definition scenario_conversation :: ConversationFlow where
  "scenario_conversation =
     snd (start_conversation (seconds 1)
            (initialize (new_ConversationFlow 0 ''M1'' ''R1'') [(''company'', ''Acme'')]
               scenario_questions))"

definition scenario_answers :: "(datetime \<times> string \<times> string) list" where
  "scenario_answers =
     [(seconds 10, ''answer 1'', ''U1''), (seconds 20, ''answer 2'', ''U1''),
      (seconds 30, ''answer 3'', ''U1''), (seconds 40, ''answer 4'', ''U1''),
      (seconds 50, ''answer 5'', ''U1''), (seconds 60, ''answer 6'', ''U1'')]"



text \<open>
  Collaborators that all answer, and a registry that stays empty: nobody ever joins the
  room of the meeting.
\<close>

definition nobody_comes :: Collaborators where
  "nobody_comes =
     \<lparr> select_scheduled_meeting = (\<lambda>mid. Returns [\<lparr>lead_id = ''L1'', question_set_id = None\<rparr>]),
       select_lead = (\<lambda>lid. Returns [[(''company'', ''Acme'')]]),
       update_scheduled_meeting_raises = (\<lambda>mid. False),
       generate_questions_for_lead = (\<lambda>ld qset. scenario_questions),
       text_to_speech = (\<lambda>spoken. Returns True),
       registry_at = (\<lambda>t. new_EnhancedSessionManager),
       send_raises = (\<lambda>ws. False),
       ai_websocket = 0 \<rparr>"

text \<open>The scheduled join of the agent for meeting \<open>M1\<close> in room \<open>R1\<close>, started at time 0.\<close>

definition nobody_result :: "bool \<times> AIMeetingOrchestrator \<times> EnhancedSessionManager" where
  "nobody_result =
     join_scheduled_meeting nobody_comes 0 ''M1'' ''R1'' None new_AIMeetingOrchestrator"

section \<open>Termination of the leave and broadcast cascade\<close>

text \<open>
  Termination of \<open>leave_meeting_room\<close>, \<open>broadcast_to_room\<close> and \<open>leave_disconnected\<close>: every leave that gets as far as broadcasting has deleted an
  entry of \<open>participant_to_room\<close>, and nothing in the cascade adds one.
\<close>

lemma length_recipients_le: "length (recipients room ex) \<le> length (participants room)"
  unfolding recipients_def
  by (rule order_trans[OF length_filter_le]) simp

lemma length_delete_less:
  "map_of al k = Some v \<Longrightarrow> length (AList.delete k al) < length al"
  by (induction al) (auto simp: less_Suc_eq_le length_delete_le split: if_splits)

lemma cascade_mapping_length:
  "leave_meeting_room_broadcast_to_room_leave_disconnected_dom (Inl (dead, now, uid, s)) \<Longrightarrow>
     length (participant_to_room (snd (leave_meeting_room dead now uid s)))
       \<le> length (participant_to_room s)"
  "leave_meeting_room_broadcast_to_room_leave_disconnected_dom
       (Inr (Inl (dead, now, rid, msg, ex, s))) \<Longrightarrow>
     length (participant_to_room (broadcast_to_room dead now rid msg ex s))
       \<le> length (participant_to_room s)"
  "leave_meeting_room_broadcast_to_room_leave_disconnected_dom
       (Inr (Inr (dead, now, uids, s))) \<Longrightarrow>
     length (participant_to_room (leave_disconnected dead now uids s))
       \<le> length (participant_to_room s)"
proof (induct rule: leave_meeting_room_broadcast_to_room_leave_disconnected.pinduct)
  case (1 dead now uid s)
  show ?case
  proof (cases "map_of (participant_to_room s) uid")
    case None
    then show ?thesis by (simp add: leave_meeting_room.psimps[OF 1(1)])
  next
    case (Some rid)
    note mapped = this
    show ?thesis
    proof (cases "map_of (meeting_rooms s) rid")
      case None
      with mapped show ?thesis by (simp add: leave_meeting_room.psimps[OF 1(1)])
    next
      case (Some room)
      note room = this
      obtain ok room1 where rp: "remove_participant room uid = (ok, room1)"
        by (cases "remove_participant room uid")
      show ?thesis
      proof (cases ok)
        case False
        with mapped room rp show ?thesis
          by (simp add: leave_meeting_room.psimps[OF 1(1)])
      next
        case True
        define s1 where "s1 = s\<lparr>meeting_rooms := AList.update rid room1 (meeting_rooms s),
                               participant_to_room := AList.delete uid (participant_to_room s)\<rparr>"
        have ih: "length (participant_to_room
                     (broadcast_to_room dead now rid (''participant_left'', Some uid) None s1))
                  \<le> length (participant_to_room s1)"
          using 1(2)[OF mapped room rp[symmetric] _ s1_def] True by simp
        have "length (participant_to_room s1) \<le> length (participant_to_room s)"
          by (simp add: s1_def length_delete_le)
        with ih True mapped room rp show ?thesis
          by (simp add: leave_meeting_room.psimps[OF 1(1)] cleanup_room_def Let_def s1_def
                   split: option.splits)
      qed
    qed
  qed
next
  case (2 dead now rid msg ex s)
  then show ?case
    by (simp add: broadcast_to_room.psimps Let_def split: option.splits)
next
  case (3 dead now s)
  then show ?case by (simp add: leave_disconnected.psimps)
next
  case (4 dead now uid uids s)
  then show ?case by (simp add: leave_disconnected.psimps)
qed

termination leave_meeting_room
proof (relation "inv_image (less_than <*lex*> less_than)
     (\<lambda>x. case x of
          Inl (dead, now, uid, s) \<Rightarrow> (length (participant_to_room s), 0)
        | Inr (Inl (dead, now, rid, m, ex, s)) \<Rightarrow>
            (length (participant_to_room s),
             2 + (case map_of (meeting_rooms s) rid of
                    None \<Rightarrow> 0 | Some r \<Rightarrow> length (participants r)))
        | Inr (Inr (dead, now, uids, s)) \<Rightarrow>
            (length (participant_to_room s), 1 + length uids))",
    goal_cases)
  case 1
  show ?case by (intro wf_inv_image wf_lex_prod wf_less_than)
next
  case (2 dead now uid s rid room ok room1 s1)
  then show ?case by (simp add: length_delete_less)
next
  case (3 dead now rid msg ex s room targets delivered disc)
  have "length disc \<le> length (participants room)"
    unfolding 3 using length_recipients_le[of room ex]
    by (simp add: order_trans[OF length_filter_le])
  with 3 show ?case by simp
next
  case (4 dead now uid uids s)
  show ?case by simp
next
  case (5 dead now uid uids s)
  from cascade_mapping_length(1)[OF 5] show ?case by auto
qed

declare leave_meeting_room.simps [simp del]
declare broadcast_to_room.simps [simp del]

section \<open>Evaluation of concrete runs\<close>

lemmas run_simps = join_meeting_room_def create_meeting_room_def new_MeetingRoom_def
  new_Participant_def add_participant_def remove_participant_def broadcast_participant_update_def
  broadcast_to_room.simps leave_meeting_room.simps recipients_def schedule_ai_auto_join_def
  get_human_participants_def handle_voice_activity_def set_voice_activity_def
  should_cleanup_def is_empty_def cleanup_room_def minutes_def seconds_def
  new_EnhancedSessionManager_def no_failure_def Let_def

lemma scenario_one_eval:
  "scenario_one =
     \<lparr>meeting_rooms =
        [(''R1'',
          \<lparr>room_id = ''R1'', max_participants = 2,
            participants =
              [(''U1'', \<lparr>user_id = ''U1'', websocket = 1, participant_type = HUMAN,
                         is_organizer = False, joined_at = 1000000, audio_enabled = True,
                         voice_activity = False, last_activity = 1000000\<rparr>)],
            created_at = 0, ai_participant = None, conversation_state = ''waiting'',
            current_speaker = None, voice_activity_timeout = 3000000,
            ai_speaking_timeout = 30000000\<rparr>)],
      participant_to_room = [(''U1'', ''R1'')], ai_auto_join_tasks = [''R1''],
      sent = [(1, ''participant_joined'', Some ''U1'')], closed = []\<rparr>"
  by (simp add: scenario_one_def run_simps)

lemma scenario_full_eval:
  "scenario_full =
     \<lparr>meeting_rooms =
        [(''R1'',
          \<lparr>room_id = ''R1'', max_participants = 2,
            participants =
              [(''U1'', \<lparr>user_id = ''U1'', websocket = 1, participant_type = HUMAN,
                         is_organizer = False, joined_at = 1000000, audio_enabled = True,
                         voice_activity = False, last_activity = 1000000\<rparr>),
               (''U2'', \<lparr>user_id = ''U2'', websocket = 2, participant_type = HUMAN,
                         is_organizer = False, joined_at = 2000000, audio_enabled = True,
                         voice_activity = False, last_activity = 2000000\<rparr>)],
            created_at = 0, ai_participant = None, conversation_state = ''waiting'',
            current_speaker = None, voice_activity_timeout = 3000000,
            ai_speaking_timeout = 30000000\<rparr>)],
      participant_to_room = [(''U1'', ''R1''), (''U2'', ''R1'')],
      ai_auto_join_tasks = [''R1''],
      sent = [(1, ''participant_joined'', Some ''U1''), (1, ''participant_joined'', Some ''U2''),
              (2, ''participant_joined'', Some ''U2'')],
      closed = []\<rparr>"
  by (simp add: scenario_full_def scenario_one_eval run_simps)

section \<open>Joining and leaving\<close>

text \<open>
  Nothing in the cascade adds an entry to \<open>participant_to_room\<close>: a user id that is not
  mapped before a leave or a broadcast is not mapped after it.
\<close>

lemma mapping_shrinks:
  "map_of (participant_to_room s) k = None \<Longrightarrow>
     map_of (participant_to_room (snd (leave_meeting_room dead now uid s))) k = None"
  "map_of (participant_to_room s) k = None \<Longrightarrow>
     map_of (participant_to_room (broadcast_to_room dead now rid msg ex s)) k = None"
  "map_of (participant_to_room s) k = None \<Longrightarrow>
     map_of (participant_to_room (leave_disconnected dead now uids s)) k = None"
proof (induct dead now uid s and dead now rid msg ex s and dead now uids s
       rule: leave_meeting_room_broadcast_to_room_leave_disconnected.induct)
  case (1 dead now uid s)
  show ?case
    using 1
    by (auto simp: leave_meeting_room.simps[of dead now uid s] cleanup_room_def Let_def
                   delete_conv'
             split: option.splits prod.splits bool.splits)
next
  case (2 dead now rid msg ex s)
  then show ?case
    by (simp add: broadcast_to_room.simps[of dead now rid msg ex s] Let_def
             split: option.splits)
next
  case (3 dead now s)
  then show ?case by simp
next
  case (4 dead now uid uids s)
  then show ?case by simp
qed

text \<open>
  Claim C4. When the number of participants of a room equals \<open>max_participants\<close>, every
  attempt to join it is rejected: \<open>add_participant\<close> returns \<open>False\<close> and leaves the room
  as it is, and \<open>join_meeting_room\<close> returns \<open>False\<close> and leaves the whole manager (the
  participants of the room, every other field of the room, the mapping, the tasks and the
  frames sent) as it is, whoever joins and whatever the transports do.
\<close>

theorem join_at_capacity_rejected:
  assumes "map_of (meeting_rooms s) rid = Some room"
      and "int (length (participants room)) = max_participants room"
  shows "add_participant room (new_Participant now uid ws ptype organizer) = (False, room)
       \<and> join_meeting_room dead now rid uid ws ptype organizer s = (False, s)"
  using assms by (simp add: join_meeting_room_def add_participant_def)

text \<open>
  The scenario of the specification: \<open>R1\<close> holds two participants, \<open>U1\<close> and \<open>U2\<close> are in,
  and \<open>U3\<close> is turned away.
\<close>

theorem join_at_capacity_rejected_witness:
  "(\<exists>room. map_of (meeting_rooms scenario_full) ''R1'' = Some room
          \<and> int (length (participants room)) = max_participants room)
   \<and> join_meeting_room no_failure (seconds 3) ''R1'' ''U3'' 3 HUMAN False scenario_full
       = (False, scenario_full)"
proof -
  obtain room where room: "map_of (meeting_rooms scenario_full) ''R1'' = Some room"
      and full: "int (length (participants room)) = max_participants room"
    by (simp add: scenario_full_eval)
  from join_at_capacity_rejected[OF room full] room full show ?thesis by blast
qed

text \<open>
  Claim C10. If a participant id is in \<open>participant_to_room\<close> but the room it is mapped to
  is not in the registry, \<open>leave_meeting_room\<close> returns \<open>False\<close> and changes nothing, so the
  stale entry stays in the mapping; and for a participant id that is not in the mapping
  \<open>leave_meeting_room\<close> returns \<open>False\<close> and changes nothing.
\<close>

theorem leave_unmapped_or_stale:
  assumes "map_of (participant_to_room s) uid = None
         \<or> (\<exists>rid. map_of (participant_to_room s) uid = Some rid
                  \<and> map_of (meeting_rooms s) rid = None)"
  shows "leave_meeting_room dead now uid s = (False, s)"
  using assms by (auto simp: leave_meeting_room.simps[of dead now uid s])

text \<open>Both cases on \<open>stale_manager\<close>: \<open>U1\<close> is mapped to the missing room \<open>R1\<close>, \<open>U2\<close> is unknown.\<close>

theorem leave_unmapped_or_stale_witness:
  "map_of (participant_to_room stale_manager) ''U1'' = Some ''R1''
   \<and> map_of (meeting_rooms stale_manager) ''R1'' = None
   \<and> leave_meeting_room no_failure 0 ''U1'' stale_manager = (False, stale_manager)
   \<and> map_of (participant_to_room stale_manager) ''U2'' = None
   \<and> leave_meeting_room no_failure 0 ''U2'' stale_manager = (False, stale_manager)"
proof -
  have a: "map_of (participant_to_room stale_manager) ''U1'' = Some ''R1''"
    and b: "map_of (meeting_rooms stale_manager) ''R1'' = None"
    and c: "map_of (participant_to_room stale_manager) ''U2'' = None"
    by (simp_all add: stale_manager_def)
  from a b have "map_of (participant_to_room stale_manager) ''U1'' = None
         \<or> (\<exists>rid. map_of (participant_to_room stale_manager) ''U1'' = Some rid
                  \<and> map_of (meeting_rooms stale_manager) rid = None)" by blast
  note leave_unmapped_or_stale[OF this, of no_failure 0]
  moreover from c have "map_of (participant_to_room stale_manager) ''U2'' = None
         \<or> (\<exists>rid. map_of (participant_to_room stale_manager) ''U2'' = Some rid
                  \<and> map_of (meeting_rooms stale_manager) rid = None)" by blast
  note leave_unmapped_or_stale[OF this, of no_failure 0]
  ultimately show ?thesis using a b c by blast
qed

text \<open>
  Claim C8. \<open>leave_meeting_room\<close> is idempotent: after one call for a participant id, a
  second call for the same id returns \<open>False\<close> and leaves the manager (rooms, participants,
  mapping, tasks, frames sent) exactly as the first call left it, whatever the clock and
  the transports are at either call.
\<close>

theorem leave_idempotent:
  "leave_meeting_room dead' now' uid (snd (leave_meeting_room dead now uid s))
     = (False, snd (leave_meeting_room dead now uid s))"
proof (cases "fst (leave_meeting_room dead now uid s)")
  case False
  then have same: "snd (leave_meeting_room dead now uid s) = s"
    by (auto simp: leave_meeting_room.simps[of dead now uid s] Let_def
             split: option.splits prod.splits bool.splits)
  from False show ?thesis unfolding same
    by (auto simp: leave_meeting_room.simps[of _ _ uid s] Let_def
             split: option.splits prod.splits bool.splits)
next
  case True
  have "map_of (participant_to_room (snd (leave_meeting_room dead now uid s))) uid = None"
    using True mapping_shrinks(2)
    by (auto simp: leave_meeting_room.simps[of dead now uid s] Let_def cleanup_room_def
                   delete_conv'
             split: option.splits prod.splits bool.splits)
  then show ?thesis
    by (simp add: leave_meeting_room.simps[of dead' now' uid])
qed

text \<open>In the scenario: \<open>U1\<close> leaves the full room, which keeps \<open>U2\<close>; leaving again does nothing.\<close>

theorem leave_idempotent_witness:
  "fst (leave_meeting_room no_failure (seconds 3) ''U1'' scenario_full)
   \<and> map (\<lambda>(k, r). (k, map fst (participants r)))
        (meeting_rooms (snd (leave_meeting_room no_failure (seconds 3) ''U1'' scenario_full)))
       = [(''R1'', [''U2''])]
   \<and> leave_meeting_room no_failure (seconds 4) ''U1''
        (snd (leave_meeting_room no_failure (seconds 3) ''U1'' scenario_full))
     = (False, snd (leave_meeting_room no_failure (seconds 3) ''U1'' scenario_full))"
proof -
  have "fst (leave_meeting_room no_failure (seconds 3) ''U1'' scenario_full)"
    by (simp add: scenario_full_eval run_simps)
  moreover have "map (\<lambda>(k, r). (k, map fst (participants r)))
        (meeting_rooms (snd (leave_meeting_room no_failure (seconds 3) ''U1'' scenario_full)))
       = [(''R1'', [''U2''])]"
    by (simp add: scenario_full_eval run_simps)
  ultimately show ?thesis
    using leave_idempotent[of no_failure "seconds 4" "''U1''" no_failure "seconds 3" scenario_full]
    by blast
qed









section \<open>Voice activity\<close>

text \<open>
  What \<open>set_voice_activity\<close> does, case by case: an unknown id changes nothing; a flip to
  active makes the participant the current speaker, with the state of its kind; a flip to
  inactive clears the current speaker when no participant is left active, and otherwise
  leaves the current speaker and the state as they were.
\<close>

lemma set_voice_activity_unknown:
  "map_of (participants room) uid = None \<Longrightarrow> set_voice_activity now room uid is_active = room"
  by (simp add: set_voice_activity_def)

lemma set_voice_activity_active:
  assumes "map_of (participants room) uid = Some p"
  shows "current_speaker (set_voice_activity now room uid True) = Some uid"
    and "conversation_state (set_voice_activity now room uid True) =
           (if participant_type p = HUMAN then ''user_speaking'' else ''ai_speaking'')"
  using assms by (simp_all add: set_voice_activity_def Let_def)

lemma set_voice_activity_inactive:
  assumes "map_of (participants room) uid = Some p"
  shows "filter voice_activity (map snd (participants (set_voice_activity now room uid False))) = []
           \<Longrightarrow> current_speaker (set_voice_activity now room uid False) = None
             \<and> conversation_state (set_voice_activity now room uid False) = ''active''"
    and "filter voice_activity (map snd (participants (set_voice_activity now room uid False))) \<noteq> []
           \<Longrightarrow> current_speaker (set_voice_activity now room uid False) = current_speaker room
             \<and> conversation_state (set_voice_activity now room uid False) = conversation_state room"
  using assms by (auto simp: set_voice_activity_def Let_def split: if_splits)

text \<open>
  Claim C2 asks that, when a participant stops speaking while another one is still active,
  the other one becomes \<open>current_speaker\<close>, so that a room with exactly one active
  participant has that participant as current speaker. The code re-scans the participants
  but acts only when none is active. In \<open>scenario_flips\<close> (\<open>U1\<close> starts, \<open>U2\<close> starts,
  \<open>U2\<close> stops) the only active participant is \<open>U1\<close>, and \<open>current_speaker\<close> is still
  \<open>U2\<close>.
\<close>

theorem speaker_not_handed_over:
  "map user_id (filter voice_activity (map snd (participants scenario_flips))) = [''U1'']
   \<and> current_speaker scenario_flips = Some ''U2''
   \<and> conversation_state scenario_flips = ''user_speaking''"
  by (simp add: scenario_flips_def scenario_room_def run_simps)

text \<open>
  Claim C3 asks that \<open>current_speaker\<close> is always null or a key of the participant map.
  \<open>remove_participant\<close> and \<open>leave_meeting_room\<close> do not touch \<open>current_speaker\<close>: when
  \<open>U1\<close> of \<open>scenario_one\<close> starts to speak and then leaves (two seconds later, so the room
  stays registered), the room has no participant, \<open>current_speaker\<close> is still \<open>U1\<close> and the
  state is still \<open>user_speaking\<close>.
\<close>

theorem speaker_left_in_room:
  "map (\<lambda>(k, r). (k, map fst (participants r), current_speaker r, conversation_state r))
     (meeting_rooms
        (snd (leave_meeting_room no_failure (seconds 3) ''U1''
                (handle_voice_activity no_failure (seconds 2) ''U1'' True scenario_one))))
   = [(''R1'', [], Some ''U1'', ''user_speaking'')]"
  by (simp add: scenario_one_eval run_simps)

section \<open>Destruction of rooms\<close>

text \<open>
  The test the code makes: the room is empty now and was created more than five minutes
  ago. It is made once, inside the leave that has just removed a participant.
\<close>

lemma should_cleanup_iff:
  "should_cleanup now room \<longleftrightarrow> participants room = [] \<and> now - created_at room > minutes 5"
  by (simp add: should_cleanup_def is_empty_def)

text \<open>
  Claim C7 asks that a room is destroyed exactly when it has been empty for more than five
  minutes, counted from the moment it became empty. In \<open>scenario_one\<close> the room was created
  at time 0. If \<open>U1\<close> leaves after six minutes, the room is removed in that very call, having
  been empty for no time at all; if \<open>U1\<close> leaves after one minute the room stays, and it is
  still registered after an hour, when a further call to \<open>leave_meeting_room\<close> finds
  nothing to do.
\<close>

theorem cleanup_counts_from_creation:
  "meeting_rooms (snd (leave_meeting_room no_failure (minutes 6) ''U1'' scenario_one)) = []
   \<and> map fst (meeting_rooms
        (snd (leave_meeting_room no_failure (minutes 60) ''U1''
                (snd (leave_meeting_room no_failure (minutes 1) ''U1'' scenario_one)))))
     = [''R1'']"
  by (simp add: scenario_one_eval run_simps)

section \<open>The conversation\<close>

text \<open>
  A user response is answered by the next question as long as the history, with the
  response appended, is shorter than twice \<open>max_questions\<close>, and by the closing message from
  then on.
\<close>

lemma process_user_response_question:
  assumes "int (length (conversation_history c)) + 1 < max_questions c * 2"
  shows "process_user_response gen now c body uid =
           generate_next_question gen (now + ai_response_delay c)
             ((save_conversation_message now c ''human'' body (Some uid))
                \<lparr>flow_last_activity := now\<rparr>)"
  using assms by (simp add: process_user_response_def Let_def save_conversation_message_def)

lemma process_user_response_complete:
  assumes "int (length (conversation_history c)) + 1 \<ge> max_questions c * 2"
  shows "process_user_response gen now c body uid =
           complete_conversation (now + ai_response_delay c)
             ((save_conversation_message now c ''human'' body (Some uid))
                \<lparr>flow_last_activity := now\<rparr>)"
  using assms by (simp add: process_user_response_def Let_def save_conversation_message_def)

lemma process_user_responses_Cons:
  "process_user_responses gen c ((now, body, uid) # rs) =
     (fst (process_user_response gen now c body uid)
        # fst (process_user_responses gen (snd (process_user_response gen now c body uid)) rs),
      snd (process_user_responses gen (snd (process_user_response gen now c body uid)) rs))"
  by (simp add: Let_def split: prod.splits)

lemma responses_before_limit:
  assumes "int (length (conversation_history c)) + 2 * int (length rs) < max_questions c * 2"
  shows "length (conversation_history (snd (process_user_responses gen c rs)))
           = length (conversation_history c) + 2 * length rs
       \<and> current_question_index (snd (process_user_responses gen c rs))
           = current_question_index c + length rs
       \<and> max_questions (snd (process_user_responses gen c rs)) = max_questions c
       \<and> ai_response_delay (snd (process_user_responses gen c rs)) = ai_response_delay c
       \<and> state (snd (process_user_responses gen c rs))
           = (if rs = [] then state c else AI_SPEAKING)"
  using assms
proof (induction rs arbitrary: c)
  case Nil
  show ?case by simp
next
  case (Cons r rs)
  obtain now body uid where r: "r = (now, body, uid)" by (cases r)
  define c1 where "c1 = snd (process_user_response gen now c body uid)"
  have q: "process_user_response gen now c body uid =
           generate_next_question gen (now + ai_response_delay c)
             ((save_conversation_message now c ''human'' body (Some uid))
                \<lparr>flow_last_activity := now\<rparr>)"
    using Cons.prems by (intro process_user_response_question) simp
  have c1: "length (conversation_history c1) = length (conversation_history c) + 2"
           "current_question_index c1 = current_question_index c + 1"
           "max_questions c1 = max_questions c" "state c1 = AI_SPEAKING"
           "ai_response_delay c1 = ai_response_delay c"
    by (simp_all add: c1_def q generate_next_question_def Let_def save_conversation_message_def)
  have pre: "int (length (conversation_history c1)) + 2 * int (length rs) < max_questions c1 * 2"
    using Cons.prems c1 by simp
  show ?case
    using Cons.IH[OF pre] c1
    by (simp add: r process_user_responses_Cons c1_def[symmetric]
             del: process_user_responses.simps)
qed

lemma responses_after_limit:
  assumes "int (length (conversation_history c)) + 1 \<ge> max_questions c * 2"
  shows "fst (process_user_responses gen c rs) = replicate (length rs) completion_message
       \<and> current_question_index (snd (process_user_responses gen c rs)) = current_question_index c
       \<and> state (snd (process_user_responses gen c rs)) = (if rs = [] then state c else COMPLETED)"
  using assms
proof (induction rs arbitrary: c)
  case Nil
  show ?case by simp
next
  case (Cons r rs)
  obtain now body uid where r: "r = (now, body, uid)" by (cases r)
  define c1 where "c1 = snd (process_user_response gen now c body uid)"
  have q: "process_user_response gen now c body uid =
           complete_conversation (now + ai_response_delay c)
             ((save_conversation_message now c ''human'' body (Some uid))
                \<lparr>flow_last_activity := now\<rparr>)"
    using Cons.prems by (intro process_user_response_complete) simp
  have c1: "length (conversation_history c1) = length (conversation_history c) + 2"
           "current_question_index c1 = current_question_index c"
           "max_questions c1 = max_questions c" "state c1 = COMPLETED"
           "fst (process_user_response gen now c body uid) = completion_message"
    by (simp_all add: c1_def q complete_conversation_def Let_def save_conversation_message_def)
  have pre: "int (length (conversation_history c1)) + 1 \<ge> max_questions c1 * 2"
    using Cons.prems c1 by simp
  show ?case
    using Cons.IH[OF pre] c1
    by (simp add: r process_user_responses_Cons c1_def[symmetric]
             del: process_user_responses.simps)
qed

text \<open>
  Claim C1. Take a conversation with the maximum of seven questions, initialized with at
  least one planned question, started with \<open>start_conversation\<close> (which appends the opening
  message, so the history has one entry) and then fed one user response at a time, with
  nothing else touching the flow. After \<open>k\<close> responses, for every \<open>k\<close> up to six, the history
  has \<open>2 * k + 1\<close> entries, the question index is \<open>k\<close> and the state is \<open>ai_speaking\<close>. The
  seventh response brings the history to 14 entries; that call sets the state to
  \<open>completed\<close>, returns the closing message, appends it, and leaves the question index where it
  was. No question is emitted afterwards: every later response gets the closing message and
  the question index stays.
\<close>

theorem seven_exchanges_complete:
  assumes "qs \<noteq> []" and "length rs = 6"
  shows "let c0 = initialize (new_ConversationFlow t0 mid rid) ld qs;
             c1 = snd (start_conversation t1 c0);
             c6 = snd (process_user_responses gen c1 rs);
             last_call = process_user_response gen now c6 body uid;
             c7 = snd last_call
         in length (conversation_history c1) = 1
          \<and> (\<forall>k \<le> 6. length (conversation_history
                           (snd (process_user_responses gen c1 (take k rs)))) = 2 * k + 1
                    \<and> current_question_index
                           (snd (process_user_responses gen c1 (take k rs))) = k
                    \<and> state (snd (process_user_responses gen c1 (take k rs))) = AI_SPEAKING)
          \<and> conversation_history c7 = conversation_history c6 @
                 [\<lparr>speaker = ''human'', message = body, timestamp = now, speaker_id = Some uid\<rparr>,
                  \<lparr>speaker = ''ai'', message = completion_message,
                   timestamp = now + seconds 2, speaker_id = None\<rparr>]
          \<and> length (conversation_history c6) + 1 = 14
          \<and> state c7 = COMPLETED
          \<and> fst last_call = completion_message
          \<and> current_question_index c7 = current_question_index c6
          \<and> (\<forall>more. fst (process_user_responses gen c7 more)
                        = replicate (length more) completion_message
                    \<and> current_question_index (snd (process_user_responses gen c7 more))
                        = current_question_index c6)"
proof -
  define c0 where "c0 = initialize (new_ConversationFlow t0 mid rid) ld qs"
  define c1 where "c1 = snd (start_conversation t1 c0)"
  define c6 where "c6 = snd (process_user_responses gen c1 rs)"
  define c7 where "c7 = snd (process_user_response gen now c6 body uid)"
  have c1: "length (conversation_history c1) = 1" "max_questions c1 = 7"
           "current_question_index c1 = 0" "state c1 = AI_SPEAKING"
           "ai_response_delay c1 = seconds 2"
    using assms(1)
    by (simp_all add: c1_def c0_def start_conversation_def initialize_def new_ConversationFlow_def
                      Let_def save_conversation_message_def)
  have before: "length (conversation_history (snd (process_user_responses gen c1 (take k rs))))
                   = 2 * k + 1
              \<and> current_question_index (snd (process_user_responses gen c1 (take k rs))) = k
              \<and> state (snd (process_user_responses gen c1 (take k rs))) = AI_SPEAKING
              \<and> max_questions (snd (process_user_responses gen c1 (take k rs))) = 7
              \<and> ai_response_delay (snd (process_user_responses gen c1 (take k rs))) = seconds 2"
    if "k \<le> 6" for k
  proof -
    have len: "length (take k rs) = k" using that assms(2) by simp
    have "int (length (conversation_history c1)) + 2 * int (length (take k rs))
            < max_questions c1 * 2"
      using that c1 len by simp
    from responses_before_limit[OF this, of gen] show ?thesis
      unfolding len using c1 by (cases "take k rs = []") auto
  qed
  have c6: "length (conversation_history c6) = 13" "current_question_index c6 = 6"
           "state c6 = AI_SPEAKING" "max_questions c6 = 7" "ai_response_delay c6 = seconds 2"
    using before[of 6] assms(2) by (simp_all add: c6_def)
  have q: "process_user_response gen now c6 body uid =
           complete_conversation (now + ai_response_delay c6)
             ((save_conversation_message now c6 ''human'' body (Some uid))
                \<lparr>flow_last_activity := now\<rparr>)"
    using c6 by (intro process_user_response_complete) simp
  have c7: "conversation_history c7 = conversation_history c6 @
                 [\<lparr>speaker = ''human'', message = body, timestamp = now, speaker_id = Some uid\<rparr>,
                  \<lparr>speaker = ''ai'', message = completion_message,
                   timestamp = now + seconds 2, speaker_id = None\<rparr>]"
           "state c7 = COMPLETED" "fst (process_user_response gen now c6 body uid) = completion_message"
           "current_question_index c7 = current_question_index c6" "max_questions c7 = 7"
    using c6
    by (simp_all add: c7_def q complete_conversation_def Let_def save_conversation_message_def)
  have "int (length (conversation_history c7)) + 1 \<ge> max_questions c7 * 2"
    using c7 c6 by simp
  note after = responses_after_limit[OF this, of gen]
  show ?thesis
    unfolding Let_def c0_def[symmetric] c1_def[symmetric] c6_def[symmetric] c7_def[symmetric]
    using c1 before c6 c7 after by auto
qed

text \<open>
  The scenario of the specification: the opening message carries \<open>Q1\<close>, the six answers are
  followed by \<open>Q2\<close> to \<open>Q7\<close>, and the seventh answer ends the conversation with question
  index 6 and 15 entries in the history.
\<close>

lemmas flow_simps = start_conversation_def initialize_def new_ConversationFlow_def
  save_conversation_message_def process_user_response_def generate_next_question_def
  complete_conversation_def dict_get_def seconds_def Let_def

lemma scenario_replies:
  "fst (process_user_responses scenario_generator scenario_conversation scenario_answers)
     = [''Q2'', ''Q3'', ''Q4'', ''Q5'', ''Q6'', ''Q7'']"
  by (simp add: scenario_conversation_def scenario_answers_def scenario_questions_def flow_simps)

theorem seven_exchanges_complete_witness:
  "scenario_questions \<noteq> [] \<and> length scenario_answers = 6
   \<and> fst (start_conversation (seconds 1)
           (initialize (new_ConversationFlow 0 ''M1'' ''R1'') [(''company'', ''Acme'')]
              scenario_questions))
       = Inr ''Hello! I'm an AI assistant here to learn more about Acme. Q1''
   \<and> fst (process_user_responses scenario_generator scenario_conversation scenario_answers)
       = [''Q2'', ''Q3'', ''Q4'', ''Q5'', ''Q6'', ''Q7'']
   \<and> fst (process_user_response scenario_generator (seconds 70)
            (snd (process_user_responses scenario_generator scenario_conversation
                    scenario_answers))
            ''answer 7'' ''U1'') = completion_message
   \<and> state (snd (process_user_response scenario_generator (seconds 70)
            (snd (process_user_responses scenario_generator scenario_conversation
                    scenario_answers))
            ''answer 7'' ''U1'')) = COMPLETED
   \<and> current_question_index (snd (process_user_response scenario_generator (seconds 70)
            (snd (process_user_responses scenario_generator scenario_conversation
                    scenario_answers))
            ''answer 7'' ''U1'')) = 6
   \<and> length (conversation_history (snd (process_user_response scenario_generator (seconds 70)
            (snd (process_user_responses scenario_generator scenario_conversation
                    scenario_answers))
            ''answer 7'' ''U1''))) = 15"
proof -
  have qs: "scenario_questions \<noteq> []" by (simp add: scenario_questions_def)
  have rs: "length scenario_answers = 6" by (simp add: scenario_answers_def)
  have greeting: "fst (start_conversation (seconds 1)
           (initialize (new_ConversationFlow 0 ''M1'' ''R1'') [(''company'', ''Acme'')]
              scenario_questions))
       = Inr ''Hello! I'm an AI assistant here to learn more about Acme. Q1''"
    by (simp add: scenario_questions_def flow_simps)
  note inst = seven_exchanges_complete[OF qs rs, of 0 "''M1''" "''R1''" "[(''company'', ''Acme'')]"
               "seconds 1" scenario_generator "seconds 70" "''answer 7''" "''U1''",
               unfolded Let_def, folded scenario_conversation_def]
  have six: "current_question_index (snd (process_user_responses scenario_generator
               scenario_conversation scenario_answers)) = 6"
            "length (conversation_history (snd (process_user_responses scenario_generator
               scenario_conversation scenario_answers))) = 13"
    using inst rs by auto
  from inst six qs rs greeting scenario_replies show ?thesis by simp
qed

section \<open>Silence\<close>

text \<open>
  The state of a flow is written in four places: the constructor (\<open>waiting\<close>),
  \<open>start_conversation\<close> and \<open>_generate_next_question\<close> (\<open>ai_speaking\<close>) and
  \<open>_complete_conversation\<close> (\<open>completed\<close>). No event moves a flow out of these three states.
\<close>

lemma flow_step_state:
  assumes "state c = WAITING \<or> state c = AI_SPEAKING \<or> state c = COMPLETED"
  shows "state (flow_step gen c e) = WAITING \<or> state (flow_step gen c e) = AI_SPEAKING
       \<or> state (flow_step gen c e) = COMPLETED"
  using assms
  by (cases e)
     (auto simp: initialize_def start_conversation_def save_conversation_message_def
                 process_user_response_def generate_next_question_def complete_conversation_def
                 handle_silence_timeout_def should_prompt_user_def Let_def
           split: option.splits)

lemma flow_run_state:
  assumes "state c = WAITING \<or> state c = AI_SPEAKING \<or> state c = COMPLETED"
  shows "state (flow_run gen c events) = WAITING \<or> state (flow_run gen c events) = AI_SPEAKING
       \<or> state (flow_run gen c events) = COMPLETED"
  using assms unfolding flow_run_def
proof (induction events arbitrary: c)
  case Nil
  then show ?case by simp
next
  case (Cons e events)
  from flow_step_state[OF Cons.prems] show ?case
    by (simp add: Cons.IH)
qed

text \<open>
  \<open>should_prompt_user\<close> as a function of the flow, and what \<open>handle_silence_timeout\<close> leaves
  as it is: it writes the history only.
\<close>

lemma should_prompt_user_iff:
  "should_prompt_user now c =
     (state c = WAITING_FOR_RESPONSE \<and> silence_timeout c < now - flow_last_activity c)"
  by (simp add: should_prompt_user_def)

lemma handle_silence_timeout_keeps:
  "state (snd (handle_silence_timeout now c)) = state c
   \<and> flow_last_activity (snd (handle_silence_timeout now c)) = flow_last_activity c
   \<and> silence_timeout (snd (handle_silence_timeout now c)) = silence_timeout c"
  by (simp add: handle_silence_timeout_def save_conversation_message_def)

text \<open>
  Claim C6. As a function of the flow, \<open>should_prompt_user\<close> is true exactly when the state
  is \<open>waiting_for_response\<close> and the time since \<open>last_activity\<close> exceeds \<open>silence_timeout\<close>,
  and \<open>handle_silence_timeout\<close> does not change what \<open>should_prompt_user\<close> returns: it
  resets nothing. But a flow that the program has constructed is never in the state
  \<open>waiting_for_response\<close>, whatever sequence of \<open>initialize\<close>, \<open>start_conversation\<close>,
  \<open>process_user_response\<close>, monitor ticks and completions it has gone through: its state
  is \<open>waiting\<close>, \<open>ai_speaking\<close> or \<open>completed\<close>, so at every clock reading
  \<open>should_prompt_user\<close> is false and \<open>handle_silence_timeout\<close> returns no prompt and leaves
  the flow as it is. The silence monitor never prompts.
\<close>

theorem silence_monitor_never_prompts:
  "should_prompt_user now c0 =
     (state c0 = WAITING_FOR_RESPONSE \<and> silence_timeout c0 < now - flow_last_activity c0)
   \<and> should_prompt_user later (snd (handle_silence_timeout now c0)) = should_prompt_user later c0
   \<and> (let c = flow_run gen (new_ConversationFlow t0 mid rid) events
      in (state c = WAITING \<or> state c = AI_SPEAKING \<or> state c = COMPLETED)
       \<and> \<not> should_prompt_user now c
       \<and> handle_silence_timeout now c = (None, c))"
proof -
  have st: "state (flow_run gen (new_ConversationFlow t0 mid rid) events) = WAITING
          \<or> state (flow_run gen (new_ConversationFlow t0 mid rid) events) = AI_SPEAKING
          \<or> state (flow_run gen (new_ConversationFlow t0 mid rid) events) = COMPLETED"
    by (rule flow_run_state) (simp add: new_ConversationFlow_def)
  then have np: "\<not> should_prompt_user now (flow_run gen (new_ConversationFlow t0 mid rid) events)"
    by (auto simp: should_prompt_user_iff)
  then have "handle_silence_timeout now (flow_run gen (new_ConversationFlow t0 mid rid) events)
               = (None, flow_run gen (new_ConversationFlow t0 mid rid) events)"
    by (simp add: handle_silence_timeout_def)
  with st np show ?thesis
    using handle_silence_timeout_keeps[of now c0]
    by (simp add: Let_def should_prompt_user_iff)
qed

text \<open>
  The scenario of the specification: the flow is started at second 1 and nothing happens;
  5.1 seconds later the silence (counted from \<open>last_activity\<close>, the construction of the flow)
  exceeds the timeout of 5 seconds, the state is \<open>ai_speaking\<close>, and no prompt is due.
\<close>

theorem silence_monitor_never_prompts_witness:
  "scenario_conversation =
     flow_run scenario_generator (new_ConversationFlow 0 ''M1'' ''R1'')
       [Initialize [(''company'', ''Acme'')] scenario_questions, Start (seconds 1)]
   \<and> state scenario_conversation = AI_SPEAKING
   \<and> length (conversation_history scenario_conversation) = 1
   \<and> silence_timeout scenario_conversation = seconds 5
   \<and> silence_timeout scenario_conversation
       < (seconds 1 + 5100000) - flow_last_activity scenario_conversation
   \<and> should_prompt_user (seconds 1 + 5100000) scenario_conversation = False
   \<and> handle_silence_timeout (seconds 1 + 5100000) scenario_conversation
       = (None, scenario_conversation)"
proof -
  have run: "scenario_conversation =
     flow_run scenario_generator (new_ConversationFlow 0 ''M1'' ''R1'')
       [Initialize [(''company'', ''Acme'')] scenario_questions, Start (seconds 1)]"
    by (simp add: scenario_conversation_def flow_run_def)
  have facts: "state scenario_conversation = AI_SPEAKING"
     "length (conversation_history scenario_conversation) = 1"
     "silence_timeout scenario_conversation = seconds 5"
     "silence_timeout scenario_conversation
       < (seconds 1 + 5100000) - flow_last_activity scenario_conversation"
    by (simp_all add: scenario_conversation_def scenario_questions_def flow_simps)
  from silence_monitor_never_prompts[of "seconds 1 + 5100000" scenario_conversation
         "seconds 1 + 5100000" scenario_generator 0 "''M1''" "''R1''"
         "[Initialize [(''company'', ''Acme'')] scenario_questions, Start (seconds 1)]"]
  have "\<not> should_prompt_user (seconds 1 + 5100000) scenario_conversation
      \<and> handle_silence_timeout (seconds 1 + 5100000) scenario_conversation
          = (None, scenario_conversation)"
    unfolding Let_def run[symmetric] by blast
  with run facts show ?thesis by simp
qed

section \<open>The scheduled join\<close>

text \<open>
  \<open>_wait_for_participants\<close>: one round of the loop, and what its result means. When it
  returns \<open>True\<close> the deadline has not passed and a human participant is in the room at
  the time of the return.
\<close>

lemma wait_loop_unfold:
  "wait_loop registry rid timeout_time now =
     (if now < timeout_time
      then (if filter (\<lambda>p. participant_type p = HUMAN)
                 (get_room_participants (registry now) rid) \<noteq> []
            then (True, now)
            else wait_loop registry rid timeout_time (now + seconds 5))
      else (False, now))"
  by (subst wait_loop.simps) (simp only: Let_def)

lemma wait_loop_found:
  "fst (wait_loop registry rid timeout_time now) \<Longrightarrow>
     snd (wait_loop registry rid timeout_time now) < timeout_time
   \<and> filter (\<lambda>p. participant_type p = HUMAN)
         (get_room_participants (registry (snd (wait_loop registry rid timeout_time now))) rid)
       \<noteq> []"
proof (induction registry rid timeout_time now rule: wait_loop.induct)
  case (1 registry rid timeout_time now)
  show ?case
  proof (cases "now < timeout_time")
    case False
    then have "wait_loop registry rid timeout_time now = (False, now)"
      by (subst wait_loop_unfold) simp
    with "1.prems" show ?thesis by simp
  next
    case True
    show ?thesis
    proof (cases "filter (\<lambda>p. participant_type p = HUMAN)
                    (get_room_participants (registry now) rid) = []")
      case False
      with True have "wait_loop registry rid timeout_time now = (True, now)"
        by (subst wait_loop_unfold) simp
      with True False show ?thesis by simp
    next
      case nobody: True
      with True have step: "wait_loop registry rid timeout_time now =
                wait_loop registry rid timeout_time (now + seconds 5)"
        by (subst wait_loop_unfold) simp
      from "1.IH"[OF True refl] nobody "1.prems" show ?thesis
        unfolding step by simp
    qed
  qed
qed

text \<open>
  When no human participant ever enters the room the wait returns \<open>False\<close>, not before the
  deadline and less than one pause of five seconds after it; it returns exactly at the
  deadline when the pauses divide the time left.
\<close>

lemma wait_loop_nobody:
  assumes "\<And>t. filter (\<lambda>p. participant_type p = HUMAN)
                  (get_room_participants (registry t) rid) = []"
  shows "\<not> fst (wait_loop registry rid timeout_time now)
       \<and> timeout_time \<le> snd (wait_loop registry rid timeout_time now)
       \<and> (now \<le> timeout_time \<longrightarrow>
            snd (wait_loop registry rid timeout_time now) < timeout_time + seconds 5)"
  using assms
proof (induction registry rid timeout_time now rule: wait_loop.induct)
  case (1 registry rid timeout_time now)
  show ?case
  proof (cases "now < timeout_time")
    case True
    have step: "wait_loop registry rid timeout_time now =
                wait_loop registry rid timeout_time (now + seconds 5)"
      using True "1.prems" by (subst wait_loop_unfold) simp
    have ih: "\<not> fst (wait_loop registry rid timeout_time (now + seconds 5))
       \<and> timeout_time \<le> snd (wait_loop registry rid timeout_time (now + seconds 5))
       \<and> (now + seconds 5 \<le> timeout_time \<longrightarrow>
            snd (wait_loop registry rid timeout_time (now + seconds 5))
              < timeout_time + seconds 5)"
      using "1.IH"[OF True refl] "1.prems" by simp
    show ?thesis
    proof (cases "now + seconds 5 \<le> timeout_time")
      case True
      with ih show ?thesis unfolding step by simp
    next
      case False
      then have "wait_loop registry rid timeout_time (now + seconds 5) = (False, now + seconds 5)"
        by (subst wait_loop_unfold) simp
      with True False show ?thesis unfolding step by simp
    qed
  next
    case False
    then have "wait_loop registry rid timeout_time now = (False, now)"
      by (subst wait_loop_unfold) simp
    with False show ?thesis by (auto simp: seconds_def)
  qed
qed

lemma wait_loop_nobody_exact:
  assumes "\<And>t. filter (\<lambda>p. participant_type p = HUMAN)
                  (get_room_participants (registry t) rid) = []"
      and "now \<le> timeout_time" and "(timeout_time - now) mod seconds 5 = 0"
  shows "wait_loop registry rid timeout_time now = (False, timeout_time)"
  using assms
proof (induction registry rid timeout_time now rule: wait_loop.induct)
  case (1 registry rid timeout_time now)
  show ?case
  proof (cases "now < timeout_time")
    case True
    have step: "wait_loop registry rid timeout_time now =
                wait_loop registry rid timeout_time (now + seconds 5)"
      using True "1.prems"(1) by (subst wait_loop_unfold) simp
    have "seconds 5 dvd timeout_time - now"
      using "1.prems"(3) by (simp add: dvd_eq_mod_eq_0)
    then obtain k where k: "timeout_time - now = seconds 5 * k" by (auto simp: dvd_def)
    with True have "k \<ge> 1" by (cases "k \<le> 0") (auto simp: seconds_def mult_le_0_iff)
    then have le: "now + seconds 5 \<le> timeout_time"
      using k by (simp add: seconds_def)
    have "timeout_time - (now + seconds 5) = seconds 5 * (k - 1)"
      using k by (simp add: algebra_simps)
    then have md: "(timeout_time - (now + seconds 5)) mod seconds 5 = 0" by simp
    show ?thesis
      unfolding step using "1.IH"[OF True refl _ "1.prems"(1) le md] "1.prems"(1) by simp
  next
    case False
    with "1.prems"(2) have "now = timeout_time" by simp
    then show ?thesis by (subst wait_loop_unfold) simp
  qed
qed

lemmas orchestrator_simps = join_scheduled_meeting_def wait_for_participants_def
  join_meeting_def speak_message_def speaking_duration_def transport_raises_def
  get_room_participants_def new_AIMeetingOrchestrator_def ai_greeting_def

lemma nobody_wait:
  "wait_for_participants (registry_at nobody_comes) ''R1'' 0 10 = (False, minutes 10)"
proof -
  have nobody: "filter (\<lambda>p. participant_type p = HUMAN)
                  (get_room_participants (registry_at nobody_comes t) ''R1'') = []" for t
    by (simp add: nobody_comes_def get_room_participants_def new_EnhancedSessionManager_def)
  have "wait_loop (registry_at nobody_comes) ''R1'' (minutes 10) 0 = (False, minutes 10)"
    by (rule wait_loop_nobody_exact) (simp_all add: nobody minutes_def seconds_def)
  then show ?thesis by (simp add: wait_for_participants_def)
qed

text \<open>
  Claim C5. \<open>join_scheduled_meeting\<close> waits at most ten minutes for a human participant,
  but it does not look at the outcome of the wait. With collaborators that all answer and
  a room that nobody enters, \<open>_wait_for_participants\<close> returns \<open>False\<close> after ten minutes,
  and \<open>join_scheduled_meeting\<close> goes on as if a participant had been found: it returns
  \<open>True\<close>, the flow of meeting \<open>M1\<close> is registered in \<open>active_conversations\<close> and has been
  started (state \<open>ai_speaking\<close>, the opening message in its history), the agent is the one
  participant of room \<open>R1\<close>, and its arrival, its greeting and the opening message have been
  sent to the room.
\<close>

theorem agent_joins_after_timeout:
  "wait_for_participants (registry_at nobody_comes) ''R1'' 0 10 = (False, minutes 10)
   \<and> fst nobody_result
   \<and> map (\<lambda>(k, c). (k, state c, length (conversation_history c)))
        (active_conversations (fst (snd nobody_result)))
       = [(''M1'', AI_SPEAKING, 1)]
   \<and> map (\<lambda>(k, r). (k, map fst (participants r)))
        (meeting_rooms (snd (snd nobody_result)))
       = [(''R1'', [''ai-assistant''])]
   \<and> map (fst \<circ> snd) (sent (snd (snd nobody_result)))
       = [''participant_joined'', ''ai_voice_message'', ''ai_speaking_finished'',
          ''ai_voice_message'', ''ai_speaking_finished'']"
  unfolding nobody_result_def join_scheduled_meeting_def nobody_wait
  by (simp add: nobody_wait nobody_comes_def orchestrator_simps run_simps flow_simps
                scenario_questions_def)

end
